theory Spec2Isabelle
  imports Complex_Main "HOL-Library.AList"
begin

section \<open>The music bot of \<^verbatim>\<open>src/soundbot.py\<close>: data model\<close>

text \<open>
  The bot keeps its settings in a Python dict that is loaded from and saved to
  \<^verbatim>\<open>bot_config.json\<close>. Two views of it are modelled:
  \<^item> the JSON value as \<^verbatim>\<open>json.load\<close> returns it (\<open>json\<close>), for
    \<^verbatim>\<open>load_config\<close> and \<^verbatim>\<open>save_config\<close>, where keys may be absent and the top-level value
    need not be an object;
  \<^item> the well-typed settings record (\<open>config\<close>) with the five keys the command handlers
    and the pipeline read and write.
  Python dicts keep insertion order: an object is an association list, read with
  \<open>map_of\<close> and written with \<open>AList.update\<close> (replace in place, else append).
\<close>

datatype json =
    JNull
  | JBool bool
  | JNum real
  | JStr string
  | JArr "json list"
  | JObj "(string \<times> json) list"

datatype py_error =
    TypeError | AttributeError | ValueError | OSError

record config =
  playlists :: "string list"
  interval_minutes :: int
  download_format :: string
  max_file_size_mb :: real
  enabled :: bool

text \<open>The dict literal of lines 75-85, in the order of its keys.\<close>

definition default_items :: "(string \<times> json) list" where
  "default_items =
     [(''playlists'', JArr []),
      (''interval_minutes'', JNum 1),
      (''download_format'', JStr ''audio''),
      (''max_file_size_mb'', JNum 50),
      (''enabled'', JBool False)]"

definition default_config :: json where
  "default_config = JObj default_items"

definition config_json :: "config \<Rightarrow> json" where
  "config_json c =
     JObj [(''playlists'', JArr (map JStr (playlists c))),
           (''interval_minutes'', JNum (of_int (interval_minutes c))),
           (''download_format'', JStr (download_format c)),
           (''max_file_size_mb'', JNum (max_file_size_mb c)),
           (''enabled'', JBool (enabled c))]"

subsection \<open>Strings: Python's \<^verbatim>\<open>in\<close> on strings and \<^verbatim>\<open>str.lower\<close>\<close>

fun starts_with :: "string \<Rightarrow> string \<Rightarrow> bool" where
  "starts_with [] s = True"
| "starts_with (p # ps) [] = False"
| "starts_with (p # ps) (c # cs) = (p = c \<and> starts_with ps cs)"

text \<open>\<open>str_contains p s\<close> is Python's \<^verbatim>\<open>p in s\<close> for two strings.\<close>

fun str_contains :: "string \<Rightarrow> string \<Rightarrow> bool" where
  "str_contains p [] = (p = [])"
| "str_contains p (c # cs) = (starts_with p (c # cs) \<or> str_contains p cs)"

text \<open>
  \<^verbatim>\<open>str.lower\<close> on the ASCII letters. A \<open>char\<close> is a byte, so the bytes of a
  non-ASCII code point are left as they are; no non-ASCII code point lowercases to one
  of the letters of \<^verbatim>\<open>audio\<close> or \<^verbatim>\<open>video\<close>, the only strings the result is compared with.
\<close>

definition lower_char :: "char \<Rightarrow> char" where
  "lower_char c =
     (case map_of (zip ''ABCDEFGHIJKLMNOPQRSTUVWXYZ'' ''abcdefghijklmnopqrstuvwxyz'') c of
        Some l \<Rightarrow> l
      | None \<Rightarrow> c)"

definition lower :: "string \<Rightarrow> string" where
  "lower s = map lower_char s"

definition upper_char :: "char \<Rightarrow> char" where
  "upper_char c =
     (case map_of (zip ''abcdefghijklmnopqrstuvwxyz'' ''ABCDEFGHIJKLMNOPQRSTUVWXYZ'') c of
        Some u \<Rightarrow> u
      | None \<Rightarrow> c)"

definition upper :: "string \<Rightarrow> string" where
  "upper s = map upper_char s"

subsection \<open>The world outside the bot object\<close>

text \<open>
  The config file is absent, present but unreadable (\<^verbatim>\<open>open\<close> or \<^verbatim>\<open>json.load\<close> raises),
  or holds a JSON value. \<open>writable\<close> says whether writing the config file succeeds.
  A scratch directory is a path mapped to its listing (name and size in bytes of each
  entry, in the order \<^verbatim>\<open>os.listdir\<close> returns them).
  The messages the bot writes are kept as data: \<open>replies\<close> holds the answers to
  commands (one constructor for each message text of the source, with the values the
  text is formatted from), \<open>sent\<close> the media delivered (chat id, file, and the video
  URL of the caption), \<open>logged\<close> the lines that go to the logger. Answering a command
  is taken to succeed.
\<close>

datatype disk = NoFile | Unreadable | Parsed json

type_synonym file_entry = "string \<times> nat"

type_synonym file_path = "string \<times> string"

datatype reply =
    WelcomeMessage
  | HelpText
  | StatusText bool int string real nat "string list"
  | AddUsage | InvalidUrl | AlreadyInList | TestingPlaylist
  | PlaylistAdded nat nat | PlaylistUnreachable
  | RemoveUsage | PlaylistRemoved int string | InvalidNumber | NotANumber
  | NoPlaylists | PlaylistList "string list"
  | CannotEnable | BotEnabled int string | BotDisabled
  | IntervalUsage | IntervalTooSmall | IntervalSet int | IntervalNotANumber
  | FormatUsage | FormatInvalid | FormatSet string
  | SendNowNoPlaylists | SendNowStarted
  | NotAuthorized

datatype delivery =
    SendAudio int file_path string
  | SendVideo int file_path string

datatype log_entry =
    ConfigSaved | ErrorSavingConfig | ErrorLoadingConfig
  | NoEntriesInPlaylist string | ErrorExtractingPlaylist string
  | NoPlaylistsConfigured | BotIsDisabled
  | SelectedPlaylist string | NoVideosFound | SelectedVideo string
  | Downloaded file_path | FileTooLarge file_path | ErrorDownloading string
  | SentToTelegram | ErrorSending | CleanedUp | ErrorCleaningUp
  | SchedulerStarted int

record world =
  disk :: disk
  writable :: bool
  dirs :: "string \<rightharpoonup> file_entry list"
  replies :: "reply list"
  sent :: "delivery list"
  logged :: "log_entry list"

definition log_info :: "log_entry \<Rightarrow> world \<Rightarrow> world" where
  "log_info e w = w\<lparr>logged := logged w @ [e]\<rparr>"

definition reply_text :: "reply \<Rightarrow> world \<Rightarrow> world" where
  "reply_text r w = w\<lparr>replies := replies w @ [r]\<rparr>"

section \<open>ConfigStore: \<^verbatim>\<open>load_config\<close> and \<^verbatim>\<open>save_config\<close>\<close>

text \<open>Python truthiness of a JSON value, for \<^verbatim>\<open>config or self.config\<close>.\<close>

fun truthy :: "json \<Rightarrow> bool" where
  "truthy JNull = False"
| "truthy (JBool b) = b"
| "truthy (JNum x) = (x \<noteq> 0)"
| "truthy (JStr s) = (s \<noteq> [])"
| "truthy (JArr xs) = (xs \<noteq> [])"
| "truthy (JObj kvs) = (kvs \<noteq> [])"

text \<open>
  The body of the \<^verbatim>\<open>try\<close> of \<^verbatim>\<open>save_config\<close> (lines 106-109). \<open>self_config\<close> is
  \<^verbatim>\<open>self.config\<close>, \<open>None\<close> while the attribute does not exist yet (the call from
  \<^verbatim>\<open>__init__\<close>): reading it then raises AttributeError. Writing raises OSError when the
  file is not writable.
\<close>

definition save_config_try :: "json option \<Rightarrow> json option \<Rightarrow> world \<Rightarrow> py_error + world" where
  "save_config_try cfg self_config w =
     (case (case cfg of
              Some c \<Rightarrow> if truthy c then Inr c
                        else (case self_config of Some s \<Rightarrow> Inr s | None \<Rightarrow> Inl AttributeError)
            | None \<Rightarrow> (case self_config of Some s \<Rightarrow> Inr s | None \<Rightarrow> Inl AttributeError)) of
        Inl e \<Rightarrow> Inl e
      | Inr config_to_save \<Rightarrow>
          if writable w then Inr (log_info ConfigSaved (w\<lparr>disk := Parsed config_to_save\<rparr>))
          else Inl OSError)"

text \<open>\<^verbatim>\<open>save_config\<close> with its handler (lines 110-111): an error is logged, nothing is raised.\<close>

definition save_config :: "json option \<Rightarrow> json option \<Rightarrow> world \<Rightarrow> world" where
  "save_config cfg self_config w =
     (case save_config_try cfg self_config w of
        Inr w' \<Rightarrow> w'
      | Inl e \<Rightarrow> log_info ErrorSavingConfig w)"

text \<open>
  \<^verbatim>\<open>key not in config\<close> and \<^verbatim>\<open>config[key] = value\<close> on whatever \<^verbatim>\<open>json.load\<close> returned:
  a dict, but also a list (membership of the string), a string (substring) or a scalar
  (TypeError); only a dict supports assignment by a string key.
\<close>

fun py_contains :: "json \<Rightarrow> string \<Rightarrow> py_error + bool" where
  "py_contains (JObj kvs) k = Inr (k \<in> set (map fst kvs))"
| "py_contains (JArr xs) k = Inr (JStr k \<in> set xs)"
| "py_contains (JStr s) k = Inr (str_contains k s)"
| "py_contains JNull k = Inl TypeError"
| "py_contains (JBool b) k = Inl TypeError"
| "py_contains (JNum x) k = Inl TypeError"

fun py_setitem :: "json \<Rightarrow> string \<Rightarrow> json \<Rightarrow> py_error + json" where
  "py_setitem (JObj kvs) k v = Inr (JObj (AList.update k v kvs))"
| "py_setitem JNull k v = Inl TypeError"
| "py_setitem (JBool b) k v = Inl TypeError"
| "py_setitem (JNum x) k v = Inl TypeError"
| "py_setitem (JStr s) k v = Inl TypeError"
| "py_setitem (JArr xs) k v = Inl TypeError"

text \<open>The merge loop of lines 92-94 over \<^verbatim>\<open>default_config.items()\<close>.\<close>

fun merge_defaults :: "(string \<times> json) list \<Rightarrow> json \<Rightarrow> py_error + json" where
  "merge_defaults [] config = Inr config"
| "merge_defaults ((key, v) # rest) config =
     (case py_contains config key of
        Inl e \<Rightarrow> Inl e
      | Inr True \<Rightarrow> merge_defaults rest config
      | Inr False \<Rightarrow>
          (case py_setitem config key v of
             Inl e \<Rightarrow> Inl e
           | Inr config' \<Rightarrow> merge_defaults rest config'))"

text \<open>The body of the \<^verbatim>\<open>try\<close> of \<^verbatim>\<open>load_config\<close> (lines 88-98).\<close>

definition load_config_try :: "world \<Rightarrow> py_error + (json \<times> world)" where
  "load_config_try w =
     (case disk w of
        NoFile \<Rightarrow> Inr (default_config, save_config (Some default_config) None w)
      | Unreadable \<Rightarrow> Inl OSError
      | Parsed config \<Rightarrow>
          (case merge_defaults default_items config of
             Inl e \<Rightarrow> Inl e
           | Inr config' \<Rightarrow> Inr (config', w)))"

text \<open>\<^verbatim>\<open>load_config\<close> with its handler (lines 99-101).\<close>

definition load_config :: "world \<Rightarrow> json \<times> world" where
  "load_config w =
     (case load_config_try w of
        Inr r \<Rightarrow> r
      | Inl e \<Rightarrow> (default_config, log_info ErrorLoadingConfig w))"

section \<open>File system operations on scratch directories\<close>

text \<open>
  A path is the pair of \<^verbatim>\<open>os.path.join(temp_dir, file)\<close>; \<^verbatim>\<open>os.path.dirname\<close> is its first
  component. Each operation raises OSError where Python's does: on a missing file or
  directory, and \<^verbatim>\<open>os.rmdir\<close> on a directory that is not empty.
\<close>

definition os_path_exists :: "file_path \<Rightarrow> world \<Rightarrow> bool" where
  "os_path_exists p w =
     (case dirs w (fst p) of None \<Rightarrow> False | Some es \<Rightarrow> snd p \<in> set (map fst es))"

definition dir_exists :: "string \<Rightarrow> world \<Rightarrow> bool" where
  "dir_exists d w = (dirs w d \<noteq> None)"

definition os_listdir :: "string \<Rightarrow> world \<Rightarrow> py_error + string list" where
  "os_listdir d w = (case dirs w d of None \<Rightarrow> Inl OSError | Some es \<Rightarrow> Inr (map fst es))"

definition os_remove :: "file_path \<Rightarrow> world \<Rightarrow> py_error + world" where
  "os_remove p w =
     (case dirs w (fst p) of
        None \<Rightarrow> Inl OSError
      | Some es \<Rightarrow>
          if snd p \<in> set (map fst es)
          then Inr (w\<lparr>dirs := (dirs w)(fst p \<mapsto> filter (\<lambda>e. fst e \<noteq> snd p) es)\<rparr>)
          else Inl OSError)"

definition os_rmdir :: "string \<Rightarrow> world \<Rightarrow> py_error + world" where
  "os_rmdir d w =
     (case dirs w d of
        None \<Rightarrow> Inl OSError
      | Some es \<Rightarrow> if es = [] then Inr (w\<lparr>dirs := (dirs w)(d := None)\<rparr>) else Inl OSError)"

section \<open>The scheduler object\<close>

text \<open>
  The APScheduler object the bot holds: whether it runs, the jobs added while it was
  stopped (kept pending until \<^verbatim>\<open>start\<close>) and the jobs of its store. A job is its id and
  the minutes of its interval trigger. \<^verbatim>\<open>add_job\<close> is always called with
  \<^verbatim>\<open>replace_existing=True\<close>: a job whose id is in the store replaces that job.
\<close>

record job =
  job_id :: string
  minutes :: int

record scheduler =
  running :: bool
  pending_jobs :: "job list"
  jobs :: "job list"

definition remove_all_jobs :: "scheduler \<Rightarrow> scheduler" where
  "remove_all_jobs s = (if running s then s\<lparr>jobs := []\<rparr> else s\<lparr>pending_jobs := []\<rparr>)"

definition real_add_job :: "job \<Rightarrow> job list \<Rightarrow> job list" where
  "real_add_job j js =
     (if job_id j \<in> set (map job_id js)
      then map (\<lambda>x. if job_id x = job_id j then j else x) js
      else js @ [j])"

definition add_job :: "job \<Rightarrow> scheduler \<Rightarrow> scheduler" where
  "add_job j s =
     (if running s then s\<lparr>jobs := real_add_job j (jobs s)\<rparr>
      else s\<lparr>pending_jobs := pending_jobs s @ [j]\<rparr>)"

text \<open>
  \<^verbatim>\<open>start\<close> moves the pending jobs into the store and runs. The source calls it only on a
  scheduler that is not running; on a running one the library raises, which is the
  unchanged state here.
\<close>

definition scheduler_start :: "scheduler \<Rightarrow> scheduler" where
  "scheduler_start s =
     (if running s then s
      else s\<lparr>running := True,
             jobs := foldl (\<lambda>js j. real_add_job j js) (jobs s) (pending_jobs s),
             pending_jobs := []\<rparr>)"

definition new_scheduler :: scheduler where
  "new_scheduler = \<lparr>running = False, pending_jobs = [], jobs = []\<rparr>"

section \<open>The bot object and what one call receives from outside\<close>

record bot =
  user_id :: int
  config :: config
  scheduler :: scheduler
  world :: world

text \<open>
  An entry of a playlist as the extractor returns it: \<^verbatim>\<open>None\<close>, a dict without
  \<^verbatim>\<open>webpage_url\<close>, or a dict with it. The extractor raises, or returns a dict without
  \<^verbatim>\<open>entries\<close> (\<open>None\<close>), or one with the entries.
\<close>

datatype entry = NoEntry | EntryWithoutUrl | Entry string

datatype ytdl_opts = AudioOpts string | VideoOpts string

record dl_outcome =
  dl_raises :: bool
  dl_files :: "file_entry list"

text \<open>
  What one handler call or one cycle receives from its collaborators: the two draws of
  \<^verbatim>\<open>random.choice\<close>, the extractor's answer for a playlist, the directory \<^verbatim>\<open>mkdtemp\<close>
  returns, what the downloader leaves in that directory (and whether \<^verbatim>\<open>extract_info\<close> or
  \<^verbatim>\<open>download\<close> raised), and whether sending the file raises.
\<close>

record env =
  choice1 :: nat
  choice2 :: nat
  extract_info :: "string \<Rightarrow> py_error + entry list option"
  mkdtemp :: string
  ydl :: "ytdl_opts \<Rightarrow> string \<Rightarrow> dl_outcome"
  send_raises :: bool

record update =
  effective_user_id :: int

record ctx =
  args :: "string list"

definition on_world :: "(world \<Rightarrow> world) \<Rightarrow> bot \<Rightarrow> bot" where
  "on_world f b = b\<lparr>world := f (world b)\<rparr>"

text \<open>\<^verbatim>\<open>random.choice(seq)\<close> on a non-empty sequence: the element at a drawn index.\<close>

definition random_choice :: "nat \<Rightarrow> 'a list \<Rightarrow> 'a" where
  "random_choice r xs = xs ! (r mod length xs)"

text \<open>The method \<^verbatim>\<open>save_config()\<close> called with no argument: it writes \<^verbatim>\<open>self.config\<close>.\<close>

definition save_self :: "bot \<Rightarrow> bot" where
  "save_self b = on_world (save_config None (Some (config_json (config b)))) b"

section \<open>PlaylistResolver: \<^verbatim>\<open>get_playlist_videos\<close>\<close>

fun entry_urls :: "entry list \<Rightarrow> string list" where
  "entry_urls [] = []"
| "entry_urls (Entry u # es) = u # entry_urls es"
| "entry_urls (NoEntry # es) = entry_urls es"
| "entry_urls (EntryWithoutUrl # es) = entry_urls es"

definition get_playlist_videos :: "env \<Rightarrow> string \<Rightarrow> world \<Rightarrow> string list \<times> world" where
  "get_playlist_videos ev playlist_url w =
     (case extract_info ev playlist_url of
        Inl e \<Rightarrow> ([], log_info (ErrorExtractingPlaylist playlist_url) w)
      | Inr None \<Rightarrow> ([], log_info (NoEntriesInPlaylist playlist_url) w)
      | Inr (Some es) \<Rightarrow> (entry_urls es, w))"

section \<open>MediaFetcher: \<^verbatim>\<open>download_and_convert\<close>\<close>

text \<open>
  The loop of lines 154-165 over the listing of the scratch directory. Both branches of
  its body return, so the equation for a non-empty listing has no recursive call; the
  empty listing falls out of the loop and the function returns \<^verbatim>\<open>None\<close>.
  The size is \<^verbatim>\<open>os.path.getsize(file_path) / (1024 * 1024)\<close>, here an exact quotient; the
  float of the source is that quotient exactly for every size below \<open>2 ^ 53\<close> bytes.
\<close>

fun check_files ::
  "string \<Rightarrow> real \<Rightarrow> file_entry list \<Rightarrow> world \<Rightarrow> (py_error + file_path option) \<times> world" where
  "check_files temp_dir max_mb [] w = (Inr None, w)"
| "check_files temp_dir max_mb ((file, sz) # rest) w =
     (let file_path = (temp_dir, file);
          file_size = real sz / (1024 * 1024)
      in if file_size \<le> max_mb
         then (Inr (Some file_path), log_info (Downloaded file_path) w)
         else (case os_remove file_path (log_info (FileTooLarge file_path) w) of
                 Inl e \<Rightarrow> (Inl e, log_info (FileTooLarge file_path) w)
               | Inr w' \<Rightarrow> (Inr None, w')))"

text \<open>
  \<^verbatim>\<open>download_and_convert\<close>: the scratch directory is created (\<^verbatim>\<open>mkdtemp\<close> is taken to
  succeed), the downloader fills it, the listing is checked. An exception anywhere
  (lines 167-169) is logged and the result is \<^verbatim>\<open>None\<close>; nothing the body did before is
  undone.
\<close>

definition download_and_convert ::
  "env \<Rightarrow> string \<Rightarrow> string \<Rightarrow> bot \<Rightarrow> file_path option \<times> bot" where
  "download_and_convert ev video_url fmt b =
     (let temp_dir = mkdtemp ev;
          w1 = (world b)\<lparr>dirs := (dirs (world b))(temp_dir \<mapsto> [])\<rparr>;
          ytdl_opts = (if fmt = ''audio'' then AudioOpts temp_dir else VideoOpts temp_dir);
          outcome = ydl ev ytdl_opts video_url;
          w2 = w1\<lparr>dirs := (dirs w1)(temp_dir \<mapsto> dl_files outcome)\<rparr>
      in if dl_raises outcome
         then (None, b\<lparr>world := log_info (ErrorDownloading video_url) w2\<rparr>)
         else (case check_files temp_dir (max_file_size_mb (config b)) (dl_files outcome) w2 of
                 (Inl e, w3) \<Rightarrow> (None, b\<lparr>world := log_info (ErrorDownloading video_url) w3\<rparr>)
               | (Inr r, w3) \<Rightarrow> (r, b\<lparr>world := w3\<rparr>)))"

section \<open>DeliveryPipeline: \<^verbatim>\<open>send_random_music\<close>\<close>

text \<open>
  Sending (lines 203-219): \<^verbatim>\<open>context\<close> is \<open>None\<close> for the scheduled job (its
  \<^verbatim>\<open>args=[None]\<close>), where \<^verbatim>\<open>context.bot\<close> raises; otherwise the send raises or delivers.
  The handler logs the error.
\<close>

definition send_file :: "env \<Rightarrow> ctx option \<Rightarrow> file_path \<Rightarrow> string \<Rightarrow> bot \<Rightarrow> bot" where
  "send_file ev context file_path video_url b =
     (if context = None \<or> send_raises ev then on_world (log_info ErrorSending) b
      else on_world
             (\<lambda>w. log_info SentToTelegram
                (w\<lparr>sent := sent w @
                     [if download_format (config b) = ''audio''
                      then SendAudio (user_id b) file_path video_url
                      else SendVideo (user_id b) file_path video_url]\<rparr>)) b)"

text \<open>The \<^verbatim>\<open>finally\<close> block (lines 221-231): its \<^verbatim>\<open>try\<close> body, then the handler.\<close>

definition cleanup_try :: "file_path \<Rightarrow> world \<Rightarrow> py_error + world" where
  "cleanup_try file_path w =
     (case os_remove file_path w of
        Inl e \<Rightarrow> Inl e
      | Inr w1 \<Rightarrow>
          (let temp_dir = fst file_path in
           if dir_exists temp_dir w1 \<and> os_listdir temp_dir w1 = Inr []
           then (case os_rmdir temp_dir w1 of
                   Inl e \<Rightarrow> Inl e
                 | Inr w2 \<Rightarrow> Inr (log_info CleanedUp w2))
           else Inr (log_info CleanedUp w1)))"

definition cleanup :: "file_path \<Rightarrow> world \<Rightarrow> world" where
  "cleanup file_path w =
     (case cleanup_try file_path w of
        Inr w' \<Rightarrow> w'
      | Inl e \<Rightarrow> log_info ErrorCleaningUp w)"

text \<open>
  One cycle. Every call inside has a handler of its own, so no exception is left for the
  outer handler of lines 233-234, which is not a branch here.
\<close>

definition send_random_music :: "env \<Rightarrow> ctx option \<Rightarrow> bot \<Rightarrow> bot" where
  "send_random_music ev context b =
     (if playlists (config b) = [] then on_world (log_info NoPlaylistsConfigured) b
      else if \<not> enabled (config b) then on_world (log_info BotIsDisabled) b
      else
        (let playlist_url = random_choice (choice1 ev) (playlists (config b));
             b1 = on_world (log_info (SelectedPlaylist playlist_url)) b;
             (video_urls, w2) = get_playlist_videos ev playlist_url (world b1);
             b2 = b1\<lparr>world := w2\<rparr>
         in if video_urls = [] then on_world (log_info NoVideosFound) b2
            else
              (let video_url = random_choice (choice2 ev) video_urls;
                   b3 = on_world (log_info (SelectedVideo video_url)) b2;
                   (file_path, b4) =
                      download_and_convert ev video_url (download_format (config b3)) b3
               in case file_path of
                    None \<Rightarrow> b4
                  | Some p \<Rightarrow>
                      if os_path_exists p (world b4)
                      then on_world (cleanup p) (send_file ev context p video_url b4)
                      else b4)))"

section \<open>Scheduler: \<^verbatim>\<open>setup_scheduler\<close>\<close>

definition send_music_job :: "config \<Rightarrow> job" where
  "send_music_job c = \<lparr>job_id = ''send_music_job'', minutes = interval_minutes c\<rparr>"

definition setup_scheduler :: "bot \<Rightarrow> bot" where
  "setup_scheduler b =
     (let s1 = (if running (scheduler b) then remove_all_jobs (scheduler b) else scheduler b)
      in if enabled (config b) \<and> playlists (config b) \<noteq> []
         then
           (let s2 = add_job (send_music_job (config b)) s1;
                s3 = (if \<not> running s2 then scheduler_start s2 else s2)
            in on_world (log_info (SchedulerStarted (interval_minutes (config b))))
                 (b\<lparr>scheduler := s3\<rparr>))
         else b\<lparr>scheduler := s1\<rparr>)"

section \<open>CommandSurface: the command handlers\<close>

type_synonym handler = "update \<Rightarrow> ctx \<Rightarrow> env \<Rightarrow> bot \<Rightarrow> bot"

text \<open>
  \<^verbatim>\<open>int(s)\<close> on an argument of a command (a word of the message, so without white space):
  an optional sign, then decimal digits, single underscores allowed between digits;
  anything else raises ValueError.
\<close>

definition digit_of :: "char \<Rightarrow> nat option" where
  "digit_of c = map_of (zip ''0123456789'' [0, 1, 2, 3, 4, 5, 6, 7, 8, 9]) c"

fun parse_digits :: "bool \<Rightarrow> nat \<Rightarrow> string \<Rightarrow> nat option" where
  "parse_digits prev acc [] = (if prev then Some acc else None)"
| "parse_digits prev acc (c # cs) =
     (case digit_of c of
        Some d \<Rightarrow> parse_digits True (10 * acc + d) cs
      | None \<Rightarrow> if c = CHR ''_'' \<and> prev then parse_digits False acc cs else None)"

definition py_int :: "string \<Rightarrow> py_error + int" where
  "py_int s =
     (case s of
        [] \<Rightarrow> Inl ValueError
      | c # cs \<Rightarrow>
          if c = CHR ''-''
          then (case parse_digits False 0 cs of
                  Some n \<Rightarrow> Inr (- int n) | None \<Rightarrow> Inl ValueError)
          else if c = CHR ''+''
          then (case parse_digits False 0 cs of
                  Some n \<Rightarrow> Inr (int n) | None \<Rightarrow> Inl ValueError)
          else (case parse_digits False 0 s of
                  Some n \<Rightarrow> Inr (int n) | None \<Rightarrow> Inl ValueError))"

definition start_command :: handler where
  "start_command u c ev b = on_world (reply_text WelcomeMessage) b"

definition help_command :: handler where
  "help_command u c ev b = on_world (reply_text HelpText) b"

definition status_command :: handler where
  "status_command u c ev b =
     on_world
       (reply_text
          (StatusText (enabled (config b)) (interval_minutes (config b))
             (upper (download_format (config b))) (max_file_size_mb (config b))
             (length (playlists (config b)))
             (map (take 50) (take 3 (playlists (config b)))))) b"

definition add_playlist_command :: handler where
  "add_playlist_command u c ev b =
     (case args c of
        [] \<Rightarrow> on_world (reply_text AddUsage) b
      | playlist_url # others \<Rightarrow>
          if \<not> str_contains ''youtube.com/playlist'' playlist_url
             \<and> \<not> str_contains ''youtu.be/playlist'' playlist_url
          then on_world (reply_text InvalidUrl) b
          else if playlist_url \<in> set (playlists (config b))
          then on_world (reply_text AlreadyInList) b
          else
            (let b1 = on_world (reply_text TestingPlaylist) b;
                 (video_urls, w2) = get_playlist_videos ev playlist_url (world b1);
                 b2 = b1\<lparr>world := w2\<rparr>
             in if video_urls \<noteq> []
                then
                  (let b3 = b2\<lparr>config := (config b2)\<lparr>playlists :=
                                 playlists (config b2) @ [playlist_url]\<rparr>\<rparr>;
                       b4 = save_self b3
                   in on_world
                        (reply_text
                           (PlaylistAdded (length video_urls) (length (playlists (config b4)))))
                        b4)
                else on_world (reply_text PlaylistUnreachable) b2))"

definition remove_playlist_command :: handler where
  "remove_playlist_command u c ev b =
     (case args c of
        [] \<Rightarrow> on_world (reply_text RemoveUsage) b
      | a # others \<Rightarrow>
          (case py_int a of
             Inl e \<Rightarrow> on_world (reply_text NotANumber) b
           | Inr n \<Rightarrow>
               (let playlist_num = n - 1 in
                if 0 \<le> playlist_num \<and> playlist_num < int (length (playlists (config b)))
                then
                  (let removed_playlist = playlists (config b) ! nat playlist_num;
                       b1 = b\<lparr>config := (config b)\<lparr>playlists :=
                                take (nat playlist_num) (playlists (config b))
                                @ drop (Suc (nat playlist_num)) (playlists (config b))\<rparr>\<rparr>;
                       b2 = save_self b1
                   in on_world
                        (reply_text (PlaylistRemoved (playlist_num + 1) (take 60 removed_playlist)))
                        b2)
                else on_world (reply_text InvalidNumber) b)))"

definition list_playlists_command :: handler where
  "list_playlists_command u c ev b =
     (if playlists (config b) = [] then on_world (reply_text NoPlaylists) b
      else on_world (reply_text (PlaylistList (playlists (config b)))) b)"

definition enable_command :: handler where
  "enable_command u c ev b =
     (if playlists (config b) = [] then on_world (reply_text CannotEnable) b
      else
        (let b1 = b\<lparr>config := (config b)\<lparr>enabled := True\<rparr>\<rparr>;
             b2 = save_self b1;
             b3 = setup_scheduler b2
         in on_world
              (reply_text
                 (BotEnabled (interval_minutes (config b3)) (upper (download_format (config b3)))))
              b3))"

definition disable_command :: handler where
  "disable_command u c ev b =
     (let b1 = b\<lparr>config := (config b)\<lparr>enabled := False\<rparr>\<rparr>;
          b2 = save_self b1;
          b3 = (if running (scheduler b2)
                then b2\<lparr>scheduler := remove_all_jobs (scheduler b2)\<rparr> else b2)
      in on_world (reply_text BotDisabled) b3)"

definition set_interval_command :: handler where
  "set_interval_command u c ev b =
     (case args c of
        [] \<Rightarrow> on_world (reply_text IntervalUsage) b
      | a # others \<Rightarrow>
          (case py_int a of
             Inl e \<Rightarrow> on_world (reply_text IntervalNotANumber) b
           | Inr interval \<Rightarrow>
               if interval < 1 then on_world (reply_text IntervalTooSmall) b
               else
                 (let b1 = b\<lparr>config := (config b)\<lparr>interval_minutes := interval\<rparr>\<rparr>;
                      b2 = save_self b1;
                      b3 = (if enabled (config b2) then setup_scheduler b2 else b2)
                  in on_world (reply_text (IntervalSet interval)) b3)))"

definition set_format_command :: handler where
  "set_format_command u c ev b =
     (case args c of
        [] \<Rightarrow> on_world (reply_text FormatUsage) b
      | a # others \<Rightarrow>
          (let format_choice = lower a in
           if format_choice \<notin> set [''audio'', ''video'']
           then on_world (reply_text FormatInvalid) b
           else
             (let b1 = b\<lparr>config := (config b)\<lparr>download_format := format_choice\<rparr>\<rparr>;
                  b2 = save_self b1
              in on_world (reply_text (FormatSet (upper format_choice))) b2)))"

definition send_now_command :: handler where
  "send_now_command u c ev b =
     (if playlists (config b) = [] then on_world (reply_text SendNowNoPlaylists) b
      else send_random_music ev (Some c) (on_world (reply_text SendNowStarted) b))"

subsection \<open>Authorization and dispatch\<close>

definition check_user_permission :: "update \<Rightarrow> ctx \<Rightarrow> bot \<Rightarrow> bool \<times> bot" where
  "check_user_permission u c b =
     (if effective_user_id u \<noteq> user_id b
      then (False, on_world (reply_text NotAuthorized) b)
      else (True, b))"

definition authorized_command :: "handler \<Rightarrow> handler" where
  "authorized_command handler_func u c ev b =
     (case check_user_permission u c b of
        (ok, b') \<Rightarrow> if ok then handler_func u c ev b' else b')"

datatype command =
    Start | Help | Status | Enable | Disable | AddPlaylist | RemovePlaylist
  | ListPlaylists | SetInterval | SetFormat | SendNow

text \<open>The list \<^verbatim>\<open>handlers\<close> of \<^verbatim>\<open>run\<close> (lines 507-519).\<close>

fun handlers :: "command \<Rightarrow> handler" where
  "handlers Start = start_command"
| "handlers Help = help_command"
| "handlers Status = status_command"
| "handlers Enable = enable_command"
| "handlers Disable = disable_command"
| "handlers AddPlaylist = add_playlist_command"
| "handlers RemovePlaylist = remove_playlist_command"
| "handlers ListPlaylists = list_playlists_command"
| "handlers SetInterval = set_interval_command"
| "handlers SetFormat = set_format_command"
| "handlers SendNow = send_now_command"

text \<open>
  What happens to a running bot: a command arrives (and goes through the wrapper that
  \<^verbatim>\<open>run\<close> puts in front of every handler, lines 521-523), or the scheduler fires its
  jobs, each calling \<^verbatim>\<open>send_random_music(None)\<close>.
\<close>

datatype event = Command command update ctx env | JobsFire env

fun step :: "event \<Rightarrow> bot \<Rightarrow> bot" where
  "step (Command cmd u c ev) b = authorized_command (handlers cmd) u c ev b"
| "step (JobsFire ev) b =
     (if running (scheduler b)
      then foldl (\<lambda>b' j. send_random_music ev None b') b (jobs (scheduler b))
      else b)"

text \<open>
  \<^verbatim>\<open>run\<close>: the scheduler is set up once (line 529), then the events are handled in order.
\<close>

definition run :: "event list \<Rightarrow> bot \<Rightarrow> bot" where
  "run events b = foldl (\<lambda>b' e. step e b') (setup_scheduler b) events"

text \<open>A bot as \<^verbatim>\<open>__init__\<close> leaves it: a fresh scheduler, the loaded settings.\<close>

definition new_bot :: "int \<Rightarrow> config \<Rightarrow> world \<Rightarrow> bot" where
  "new_bot uid cfg w = \<lparr>user_id = uid, config = cfg, scheduler = new_scheduler, world = w\<rparr>"

definition default_settings :: config where
  "default_settings =
     \<lparr>playlists = [], interval_minutes = 1, download_format = ''audio'',
      max_file_size_mb = 50, enabled = False\<rparr>"

definition empty_world :: world where
  "empty_world =
     \<lparr>disk = NoFile, writable = True, dirs = Map.empty, replies = [], sent = [], logged = []\<rparr>"


text \<open>
  Sample collaborators for concrete runs: a playlist of one video, a downloader that
  leaves the given files in the scratch directory \<^verbatim>\<open>/tmp/tmpk3\<close> (or raises), and a send
  that succeeds or raises.
\<close>

definition sample_playlist :: string where
  "sample_playlist = ''https://youtube.com/playlist?list=PL1''"

definition sample_video :: string where
  "sample_video = ''https://youtube.com/watch?v=1''"

definition sample_env :: "bool \<Rightarrow> file_entry list \<Rightarrow> bool \<Rightarrow> env" where
  "sample_env raises files send_fails =
     \<lparr>choice1 = 0, choice2 = 0,
      extract_info = (\<lambda>u. Inr (Some [Entry sample_video])),
      mkdtemp = ''/tmp/tmpk3'',
      ydl = (\<lambda>opts url. \<lparr>dl_raises = raises, dl_files = files\<rparr>),
      send_raises = send_fails\<rparr>"

text \<open>An enabled bot of user 7 with the sample playlist and the given size limit.\<close>

definition sample_bot :: "real \<Rightarrow> bot" where
  "sample_bot max_mb =
     \<lparr>user_id = 7,
      config = \<lparr>playlists = [sample_playlist], interval_minutes = 1,
                download_format = ''audio'', max_file_size_mb = max_mb, enabled = True\<rparr>,
      scheduler = \<lparr>running = False, pending_jobs = [], jobs = []\<rparr>,
      world = \<lparr>disk = NoFile, writable = True, dirs = Map.empty, replies = [], sent = [],
               logged = []\<rparr>\<rparr>"

definition owner :: update where
  "owner = \<lparr>effective_user_id = 7\<rparr>"

definition stranger :: update where
  "stranger = \<lparr>effective_user_id = 8\<rparr>"

text \<open>
  A session of the owner: a playlist is added, the bot is enabled twice, disabled,
  enabled again, and the interval is set to 5 minutes.
\<close>

definition sample_events :: "event list" where
  "sample_events =
     [Command AddPlaylist owner \<lparr>args = [sample_playlist]\<rparr> (sample_env False [] False),
      Command Enable owner \<lparr>args = []\<rparr> (sample_env False [] False),
      Command Enable owner \<lparr>args = []\<rparr> (sample_env False [] False),
      Command Disable owner \<lparr>args = []\<rparr> (sample_env False [] False),
      Command Enable owner \<lparr>args = []\<rparr> (sample_env False [] False),
      Command SetInterval owner \<lparr>args = [''5'']\<rparr> (sample_env False [] False)]"

text \<open>
  Another session of the owner: a playlist is added, the bot is enabled, and the only
  playlist is removed.
\<close>

definition remove_last_events :: "event list" where
  "remove_last_events =
     [Command AddPlaylist owner \<lparr>args = [sample_playlist]\<rparr> (sample_env False [] False),
      Command Enable owner \<lparr>args = []\<rparr> (sample_env False [] False),
      Command RemovePlaylist owner \<lparr>args = [''1'']\<rparr> (sample_env False [] False)]"

section \<open>Properties of the ConfigStore\<close>

text \<open>
  On an object, the merge loop succeeds, and the result reads every key as the loaded
  object did where it had the key, and as the defaults do elsewhere.
\<close>

lemma merge_defaults_obj:
  "\<exists>kvs'. merge_defaults ds (JObj kvs) = Inr (JObj kvs') \<and>
     (\<forall>k. map_of kvs' k = (case map_of kvs k of Some v \<Rightarrow> Some v | None \<Rightarrow> map_of ds k))"
proof (induction ds arbitrary: kvs)
  case Nil
  show ?case by (simp split: option.splits)
next
  case (Cons d ds)
  obtain key v where d: "d = (key, v)" by (cases d)
  show ?case
  proof (cases "key \<in> set (map fst kvs)")
    case True
    then obtain x where x: "map_of kvs key = Some x"
      by (metis image_set map_of_eq_None_iff not_Some_eq)
    from Cons.IH [of kvs] obtain kvs' where
      m: "merge_defaults ds (JObj kvs) = Inr (JObj kvs')" and
      l: "\<forall>k. map_of kvs' k = (case map_of kvs k of Some v \<Rightarrow> Some v | None \<Rightarrow> map_of ds k)"
      by blast
    have "merge_defaults (d # ds) (JObj kvs) = Inr (JObj kvs')"
      using True m d by simp
    moreover have "\<forall>k. map_of kvs' k =
        (case map_of kvs k of Some v \<Rightarrow> Some v | None \<Rightarrow> map_of (d # ds) k)"
      using l x d by (auto split: option.splits)
    ultimately show ?thesis by blast
  next
    case False
    then have n: "map_of kvs key = None"
      by (simp add: map_of_eq_None_iff)
    from Cons.IH [of "AList.update key v kvs"] obtain kvs' where
      m: "merge_defaults ds (JObj (AList.update key v kvs)) = Inr (JObj kvs')" and
      l: "\<forall>k. map_of kvs' k =
            (case map_of (AList.update key v kvs) k of Some v \<Rightarrow> Some v | None \<Rightarrow> map_of ds k)"
      by blast
    have "merge_defaults (d # ds) (JObj kvs) = Inr (JObj kvs')"
      using False m d by simp
    moreover have "\<forall>k. map_of kvs' k =
        (case map_of kvs k of Some v \<Rightarrow> Some v | None \<Rightarrow> map_of (d # ds) k)"
      using l n d by (auto simp: update_conv' split: option.splits)
    ultimately show ?thesis by blast
  qed
qed

text \<open>
  Claim C5. \<^verbatim>\<open>load_config\<close> returns the persisted record when the config file holds one,
  every key the record lacks read from the defaults and every key it has kept; when there
  is no file it returns the default record and writes it (the file then holds it, if
  the file can be written); when the body raises (an unreadable or malformed file is one
  such case) it returns the default record and leaves the file alone. \<^verbatim>\<open>load_config\<close> and
  \<^verbatim>\<open>save_config\<close> have no error result: an exception of either body ends in its handler,
  which for \<^verbatim>\<open>save_config\<close> only logs.
\<close>

theorem load_config_contract:
  "(disk w = Parsed (JObj kvs) \<longrightarrow>
      (\<exists>kvs'. load_config w = (JObj kvs', w) \<and>
         (\<forall>k. map_of kvs' k =
            (case map_of kvs k of Some v \<Rightarrow> Some v | None \<Rightarrow> map_of default_items k)))) \<and>
   (disk w = NoFile \<longrightarrow>
      fst (load_config w) = default_config \<and>
      disk (snd (load_config w)) = (if writable w then Parsed default_config else NoFile)) \<and>
   (\<forall>e. load_config_try w = Inl e \<longrightarrow>
      fst (load_config w) = default_config \<and> disk (snd (load_config w)) = disk w) \<and>
   (disk w = Unreadable \<longrightarrow> load_config_try w = Inl OSError) \<and>
   (\<forall>e. save_config_try cfg self_config w = Inl e \<longrightarrow>
      save_config cfg self_config w = log_info ErrorSavingConfig w)"
proof (intro conjI impI allI)
  assume p: "disk w = Parsed (JObj kvs)"
  from merge_defaults_obj [of default_items kvs] obtain kvs' where
    m: "merge_defaults default_items (JObj kvs) = Inr (JObj kvs')" and
    l: "\<forall>k. map_of kvs' k =
          (case map_of kvs k of Some v \<Rightarrow> Some v | None \<Rightarrow> map_of default_items k)"
    by blast
  have "load_config w = (JObj kvs', w)"
    using p m by (simp add: load_config_def load_config_try_def)
  with l show "\<exists>kvs'. load_config w = (JObj kvs', w) \<and>
         (\<forall>k. map_of kvs' k =
            (case map_of kvs k of Some v \<Rightarrow> Some v | None \<Rightarrow> map_of default_items k))"
    by blast
next
  assume "disk w = NoFile"
  then show "fst (load_config w) = default_config"
    by (simp add: load_config_def load_config_try_def)
next
  assume "disk w = NoFile"
  then show "disk (snd (load_config w)) = (if writable w then Parsed default_config else NoFile)"
    by (simp add: load_config_def load_config_try_def save_config_def save_config_try_def
        log_info_def default_config_def default_items_def)
next
  fix e assume "load_config_try w = Inl e"
  then show "fst (load_config w) = default_config"
    by (simp add: load_config_def)
next
  fix e assume "load_config_try w = Inl e"
  then show "disk (snd (load_config w)) = disk w"
    by (simp add: load_config_def log_info_def)
next
  assume "disk w = Unreadable"
  then show "load_config_try w = Inl OSError"
    by (simp add: load_config_try_def)
next
  fix e assume "save_config_try cfg self_config w = Inl e"
  then show "save_config cfg self_config w = log_info ErrorSavingConfig w"
    by (simp add: save_config_def)
qed

text \<open>
  The contract at a file that has \<^verbatim>\<open>enabled\<close> and a key of its own only, at no file, at
  an unreadable file, and a save that cannot write.
\<close>

theorem load_config_contract_witness:
  "fst (load_config
         (empty_world\<lparr>disk := Parsed (JObj [(''enabled'', JBool True), (''volume'', JNum 3)])\<rparr>))
     = JObj [(''enabled'', JBool True), (''volume'', JNum 3), (''playlists'', JArr []),
             (''interval_minutes'', JNum 1), (''download_format'', JStr ''audio''),
             (''max_file_size_mb'', JNum 50)] \<and>
   load_config empty_world
     = (default_config, log_info ConfigSaved (empty_world\<lparr>disk := Parsed default_config\<rparr>)) \<and>
   load_config (empty_world\<lparr>disk := Unreadable\<rparr>)
     = (default_config, log_info ErrorLoadingConfig (empty_world\<lparr>disk := Unreadable\<rparr>)) \<and>
   save_config None None (empty_world\<lparr>writable := False\<rparr>)
     = log_info ErrorSavingConfig (empty_world\<lparr>writable := False\<rparr>)"
  using load_config_contract
    [of "empty_world\<lparr>disk := Parsed (JObj [(''enabled'', JBool True), (''volume'', JNum 3)])\<rparr>"
        "[(''enabled'', JBool True), (''volume'', JNum 3)]" None None]
  by (simp add: load_config_def load_config_try_def save_config_def save_config_try_def
      empty_world_def default_config_def default_items_def log_info_def)

section \<open>Projections of the state after the small steps\<close>

lemma on_world_simps:
  "config (on_world f b) = config b"
  "scheduler (on_world f b) = scheduler b"
  "user_id (on_world f b) = user_id b"
  "world (on_world f b) = f (world b)"
  by (simp_all add: on_world_def)

lemma log_info_simps:
  "disk (log_info e w) = disk w"
  "writable (log_info e w) = writable w"
  "dirs (log_info e w) = dirs w"
  "replies (log_info e w) = replies w"
  "sent (log_info e w) = sent w"
  "logged (log_info e w) = logged w @ [e]"
  by (simp_all add: log_info_def)

lemma reply_text_simps:
  "disk (reply_text r w) = disk w"
  "writable (reply_text r w) = writable w"
  "dirs (reply_text r w) = dirs w"
  "replies (reply_text r w) = replies w @ [r]"
  "sent (reply_text r w) = sent w"
  "logged (reply_text r w) = logged w"
  by (simp_all add: reply_text_def)

lemma save_config_simps:
  "disk (save_config None (Some j) w) = (if writable w then Parsed j else disk w)"
  "writable (save_config cfg sc w) = writable w"
  "dirs (save_config cfg sc w) = dirs w"
  "replies (save_config cfg sc w) = replies w"
  "sent (save_config cfg sc w) = sent w"
  by (auto simp: save_config_def save_config_try_def log_info_def
      split: option.splits sum.splits)

lemma save_self_simps:
  "config (save_self b) = config b"
  "scheduler (save_self b) = scheduler b"
  "user_id (save_self b) = user_id b"
  "disk (world (save_self b)) =
     (if writable (world b) then Parsed (config_json (config b)) else disk (world b))"
  "writable (world (save_self b)) = writable (world b)"
  "dirs (world (save_self b)) = dirs (world b)"
  "replies (world (save_self b)) = replies (world b)"
  "sent (world (save_self b)) = sent (world b)"
  by (simp_all add: save_self_def on_world_simps save_config_simps)

section \<open>Properties of the command handlers\<close>




text \<open>
  Claim C1. The code does not do what the claim says: \<^verbatim>\<open>send_now_command\<close> announces the
  cycle and calls \<^verbatim>\<open>send_random_music\<close>, whose guard on \<^verbatim>\<open>enabled\<close> (lines 178-180) returns
  before a playlist is selected. With a non-empty playlist list and \<^verbatim>\<open>enabled\<close> false,
  the whole effect of the command is the reply and the log line of the guard.
\<close>

theorem send_now_stops_when_disabled:
  "playlists (config b) \<noteq> [] \<Longrightarrow> \<not> enabled (config b) \<Longrightarrow>
     send_now_command u c ev b =
       on_world (log_info BotIsDisabled) (on_world (reply_text SendNowStarted) b)"
  by (simp add: send_now_command_def send_random_music_def on_world_simps)

text \<open>
  One playlist, \<^verbatim>\<open>enabled\<close> false: nothing is selected, fetched or sent.
\<close>

theorem send_now_stops_when_disabled_witness:
  "world (send_now_command owner \<lparr>args = []\<rparr> (sample_env False [(''song.mp3'', 1000)] False)
     (new_bot 7 (default_settings\<lparr>playlists := [sample_playlist]\<rparr>) empty_world))
   = empty_world\<lparr>replies := [SendNowStarted], logged := [BotIsDisabled]\<rparr>"
  using send_now_stops_when_disabled
    [of "new_bot 7 (default_settings\<lparr>playlists := [sample_playlist]\<rparr>) empty_world"
        owner "\<lparr>args = []\<rparr>" "sample_env False [(''song.mp3'', 1000)] False"]
  by (simp add: new_bot_def default_settings_def empty_world_def on_world_def
      log_info_def reply_text_def)

text \<open>
  Claim C8. When the sender of a command is not the configured user, the wrapper replies
  that the sender is not authorized and returns: the result is the same for every handler
  it wraps (the handler is not called), and the settings, the scheduler and the config
  file are as before.
\<close>

theorem unauthorized_command_rejected:
  "effective_user_id u \<noteq> user_id b \<Longrightarrow>
     authorized_command handler_func u c ev b = on_world (reply_text NotAuthorized) b \<and>
     step (Command cmd u c ev) b = on_world (reply_text NotAuthorized) b \<and>
     config (step (Command cmd u c ev) b) = config b \<and>
     scheduler (step (Command cmd u c ev) b) = scheduler b \<and>
     disk (world (step (Command cmd u c ev) b)) = disk (world b) \<and>
     replies (world (step (Command cmd u c ev) b)) = replies (world b) @ [NotAuthorized]"
  by (simp add: authorized_command_def check_user_permission_def on_world_simps
      reply_text_simps)

text \<open>
  \<^verbatim>\<open>enable\<close> from a stranger changes nothing but the replies; from the owner it enables.
\<close>

theorem unauthorized_command_rejected_witness:
  "step (Command Enable stranger \<lparr>args = []\<rparr> (sample_env False [] False))
      (new_bot 7 (default_settings\<lparr>playlists := [sample_playlist]\<rparr>) empty_world)
   = new_bot 7 (default_settings\<lparr>playlists := [sample_playlist]\<rparr>)
       (empty_world\<lparr>replies := [NotAuthorized]\<rparr>) \<and>
   enabled (config (step (Command Enable owner \<lparr>args = []\<rparr> (sample_env False [] False))
      (new_bot 7 (default_settings\<lparr>playlists := [sample_playlist]\<rparr>) empty_world)))"
proof -
  have "effective_user_id stranger \<noteq>
          user_id (new_bot 7 (default_settings\<lparr>playlists := [sample_playlist]\<rparr>) empty_world)"
    by (simp add: stranger_def new_bot_def)
  from unauthorized_command_rejected [OF this, of enable_command "\<lparr>args = []\<rparr>"
      "sample_env False [] False" Enable]
  have "step (Command Enable stranger \<lparr>args = []\<rparr> (sample_env False [] False))
      (new_bot 7 (default_settings\<lparr>playlists := [sample_playlist]\<rparr>) empty_world)
   = new_bot 7 (default_settings\<lparr>playlists := [sample_playlist]\<rparr>)
       (empty_world\<lparr>replies := [NotAuthorized]\<rparr>)"
    by (simp add: on_world_def reply_text_def new_bot_def empty_world_def)
  moreover have "enabled (config (step (Command Enable owner \<lparr>args = []\<rparr> (sample_env False [] False))
      (new_bot 7 (default_settings\<lparr>playlists := [sample_playlist]\<rparr>) empty_world)))"
    by (simp add: authorized_command_def check_user_permission_def owner_def new_bot_def
        enable_command_def default_settings_def sample_playlist_def Let_def
        on_world_simps save_self_simps setup_scheduler_def)
  ultimately show ?thesis by simp
qed

section \<open>Properties of the fetch step and of a cycle\<close>

text \<open>What the fetch step and the resolver leave alone.\<close>

lemma check_files_frame:
  "check_files d m es w = (r, w') \<Longrightarrow>
     sent w' = sent w \<and> replies w' = replies w \<and> disk w' = disk w \<and> writable w' = writable w"
  by (cases es) (auto simp: Let_def os_remove_def log_info_simps split: if_splits option.splits)

lemma download_and_convert_frame:
  "config (snd (download_and_convert ev video_url fmt b)) = config b"
  "scheduler (snd (download_and_convert ev video_url fmt b)) = scheduler b"
  "user_id (snd (download_and_convert ev video_url fmt b)) = user_id b"
  "sent (world (snd (download_and_convert ev video_url fmt b))) = sent (world b)"
  "replies (world (snd (download_and_convert ev video_url fmt b))) = replies (world b)"
  "disk (world (snd (download_and_convert ev video_url fmt b))) = disk (world b)"
  "writable (world (snd (download_and_convert ev video_url fmt b))) = writable (world b)"
  by (auto simp: download_and_convert_def Let_def log_info_simps
      split: prod.splits sum.splits dest: check_files_frame)


lemma get_playlist_videos_frame:
  "sent (snd (get_playlist_videos ev u w)) = sent w"
  "dirs (snd (get_playlist_videos ev u w)) = dirs w"
  "replies (snd (get_playlist_videos ev u w)) = replies w"
  "disk (snd (get_playlist_videos ev u w)) = disk w"
  "writable (snd (get_playlist_videos ev u w)) = writable w"
  by (auto simp: get_playlist_videos_def log_info_simps split: sum.splits option.splits)

text \<open>
  Claim C9. When the download raises nothing, the fetch step decides on the first entry
  of the listing alone: an empty listing gives absence; otherwise the first file is
  returned when its size is within the limit, and deleted with absence reported when it
  is not. The entries after the first take no part: the result is a function of the first
  entry, and they are still in the directory afterwards (but for one that bears the
  name of the deleted file, which a directory cannot hold twice).
\<close>

theorem fetch_looks_at_first_file_only:
  "ydl ev (if fmt = ''audio'' then AudioOpts (mkdtemp ev) else VideoOpts (mkdtemp ev)) video_url
     = \<lparr>dl_raises = False, dl_files = files\<rparr> \<Longrightarrow>
   (files = [] \<longrightarrow> fst (download_and_convert ev video_url fmt b) = None) \<and>
   (\<forall>name sz rest. files = (name, sz) # rest \<longrightarrow>
      (real sz / (1024 * 1024) \<le> max_file_size_mb (config b) \<longrightarrow>
         fst (download_and_convert ev video_url fmt b) = Some (mkdtemp ev, name) \<and>
         dirs (world (snd (download_and_convert ev video_url fmt b))) (mkdtemp ev)
           = Some ((name, sz) # rest)) \<and>
      (\<not> real sz / (1024 * 1024) \<le> max_file_size_mb (config b) \<longrightarrow>
         fst (download_and_convert ev video_url fmt b) = None \<and>
         dirs (world (snd (download_and_convert ev video_url fmt b))) (mkdtemp ev)
           = Some (filter (\<lambda>e. fst e \<noteq> name) rest)))"
  by (auto simp: download_and_convert_def Let_def os_remove_def log_info_simps)

text \<open>
  A small first file before a huge one is returned; a huge first file before a small one
  is deleted, absence is reported and the small one is never looked at; no file, absence.
\<close>

theorem fetch_looks_at_first_file_only_witness:
  "fst (download_and_convert
          (sample_env False [(''song.mp3'', 5 * 1024 * 1024), (''huge.bin'', 900 * 1024 * 1024)] False)
          sample_video ''audio'' (sample_bot 10)) = Some (''/tmp/tmpk3'', ''song.mp3'') \<and>
   fst (download_and_convert
          (sample_env False [(''huge.mp4'', 15 * 1024 * 1024), (''small.mp3'', 1024)] False)
          sample_video ''audio'' (sample_bot 10)) = None \<and>
   dirs (world (snd (download_and_convert
          (sample_env False [(''huge.mp4'', 15 * 1024 * 1024), (''small.mp3'', 1024)] False)
          sample_video ''audio'' (sample_bot 10)))) ''/tmp/tmpk3'' = Some [(''small.mp3'', 1024)] \<and>
   fst (download_and_convert (sample_env False [] False)
          sample_video ''audio'' (sample_bot 10)) = None"
  using fetch_looks_at_first_file_only
      [of "sample_env False [(''song.mp3'', 5 * 1024 * 1024), (''huge.bin'', 900 * 1024 * 1024)] False"
          "''audio''" sample_video
          "[(''song.mp3'', 5 * 1024 * 1024), (''huge.bin'', 900 * 1024 * 1024)]" "sample_bot 10"]
    fetch_looks_at_first_file_only
      [of "sample_env False [(''huge.mp4'', 15 * 1024 * 1024), (''small.mp3'', 1024)] False"
          "''audio''" sample_video
          "[(''huge.mp4'', 15 * 1024 * 1024), (''small.mp3'', 1024)]" "sample_bot 10"]
    fetch_looks_at_first_file_only
      [of "sample_env False [] False" "''audio''" sample_video "[]" "sample_bot 10"]
  by (simp add: sample_env_def sample_bot_def)



text \<open>
  Claim C2. The code does not do what the claim says. With the limit 10: after a cycle
  that rejected a file of 15 megabytes the scratch directory is still there, empty (line
  164 removes the file, nothing removes the directory); after a cycle whose download
  raised it is still there with whatever the downloader left. Only the paths through the
  \<^verbatim>\<open>finally\<close> block of \<^verbatim>\<open>send_random_music\<close> (a sent file, a failed send) remove it.
\<close>

theorem scratch_dir_left_behind:
  "dirs (world (send_random_music (sample_env False [(''song.mp3'', 15 * 1024 * 1024)] False)
           (Some \<lparr>args = []\<rparr>) (sample_bot 10))) ''/tmp/tmpk3'' = Some [] \<and>
   dirs (world (send_random_music (sample_env True [(''song.mp3.part'', 1024)] False)
           (Some \<lparr>args = []\<rparr>) (sample_bot 10))) ''/tmp/tmpk3'' = Some [(''song.mp3.part'', 1024)] \<and>
   dirs (world (send_random_music (sample_env False [(''song.mp3'', 5 * 1024 * 1024)] False)
           (Some \<lparr>args = []\<rparr>) (sample_bot 10))) ''/tmp/tmpk3'' = None \<and>
   dirs (world (send_random_music (sample_env False [(''song.mp3'', 5 * 1024 * 1024)] True)
           (Some \<lparr>args = []\<rparr>) (sample_bot 10))) ''/tmp/tmpk3'' = None"
  by (simp add: send_random_music_def download_and_convert_def get_playlist_videos_def
      sample_env_def sample_bot_def random_choice_def send_file_def cleanup_def cleanup_try_def
      os_path_exists_def dir_exists_def os_listdir_def os_rmdir_def
      on_world_def log_info_def os_remove_def Let_def)

section \<open>Properties of the scheduler and of runs of the bot\<close>

text \<open>
  A cycle and \<^verbatim>\<open>setup_scheduler\<close> leave the settings alone; every handler and every event
  keeps the scheduler in the states described by \<open>scheduler_reached\<close>.
\<close>

lemma send_random_music_frame:
  "config (send_random_music ev context b) = config b"
  "scheduler (send_random_music ev context b) = scheduler b"
  "user_id (send_random_music ev context b) = user_id b"
  by (auto simp: send_random_music_def send_file_def Let_def split_def on_world_simps
      download_and_convert_frame split: option.splits)

lemma send_random_music_disk:
  "disk (world (send_random_music ev context b)) = disk (world b)"
  by (auto simp: send_random_music_def send_file_def Let_def split_def on_world_simps
      download_and_convert_frame get_playlist_videos_frame log_info_simps
      cleanup_def cleanup_try_def os_remove_def os_rmdir_def
      split: option.splits sum.splits)

lemma setup_scheduler_frame:
  "config (setup_scheduler b) = config b"
  "user_id (setup_scheduler b) = user_id b"
  "disk (world (setup_scheduler b)) = disk (world b)"
  by (simp_all add: setup_scheduler_def Let_def on_world_simps log_info_simps)




lemma jobs_fire_frame:
  "config (foldl (\<lambda>b' j. send_random_music ev None b') b js) = config b \<and>
   scheduler (foldl (\<lambda>b' j. send_random_music ev None b') b js) = scheduler b \<and>
   user_id (foldl (\<lambda>b' j. send_random_music ev None b') b js) = user_id b \<and>
   disk (world (foldl (\<lambda>b' j. send_random_music ev None b') b js)) = disk (world b)"
  by (induction js arbitrary: b) (simp_all add: send_random_music_frame send_random_music_disk)









section \<open>Properties of the playlist list\<close>

lemma distinct_pop:
  "distinct xs \<Longrightarrow> distinct (take n xs @ drop (Suc n) xs)"
  using set_take_disj_set_drop_if_distinct [of xs n "Suc n"] by simp

lemma remove_playlist_pops:
  "playlists (config (remove_playlist_command u c ev b)) = playlists (config b) \<or>
   (\<exists>n. playlists (config (remove_playlist_command u c ev b))
          = take n (playlists (config b)) @ drop (Suc n) (playlists (config b)))"
  by (auto simp: remove_playlist_command_def Let_def on_world_simps save_self_simps
      split: list.splits sum.splits)

lemma handlers_distinct:
  "distinct (playlists (config b)) \<Longrightarrow> distinct (playlists (config (handlers cmd u c ev b)))"
proof (cases cmd)
  case RemovePlaylist
  assume d: "distinct (playlists (config b))"
  from remove_playlist_pops [of u c ev b] distinct_pop [OF d] d
  have "distinct (playlists (config (remove_playlist_command u c ev b)))"
    by (elim disjE exE) simp_all
  with RemovePlaylist show ?thesis by simp
qed (auto simp: start_command_def help_command_def status_command_def
        list_playlists_command_def set_format_command_def enable_command_def
        disable_command_def set_interval_command_def send_now_command_def
        add_playlist_command_def
        Let_def split_def on_world_simps save_self_simps setup_scheduler_frame
        send_random_music_frame
        split: list.splits sum.splits)

lemma step_distinct:
  "distinct (playlists (config b)) \<Longrightarrow> distinct (playlists (config (step e b)))"
  by (cases e)
     (auto simp: authorized_command_def check_user_permission_def on_world_simps
        jobs_fire_frame handlers_distinct)

lemma steps_distinct:
  "distinct (playlists (config b)) \<Longrightarrow>
     distinct (playlists (config (foldl (\<lambda>b' e. step e b') b es)))"
  by (induction es arbitrary: b) (simp_all add: step_distinct)

text \<open>
  Claim C6. When the URL given to \<^verbatim>\<open>add_playlist\<close> is in the list, the settings and the
  config file are unchanged. When it is not and the command adds it, it is appended, and
  a second \<^verbatim>\<open>add_playlist\<close> with the same URL (whoever sends it, whatever the resolver
  answers) leaves the list as the first made it, with exactly one entry of the URL.
  A list without duplicates stays so under \<^verbatim>\<open>add_playlist\<close> and under every run of
  the bot.
\<close>

theorem add_playlist_idempotent:
  "args c = playlist_url # rest \<Longrightarrow>
     (playlist_url \<in> set (playlists (config b)) \<longrightarrow>
        config (add_playlist_command u c ev b) = config b \<and>
        disk (world (add_playlist_command u c ev b)) = disk (world b)) \<and>
     (playlist_url \<notin> set (playlists (config b)) \<and>
      playlist_url \<in> set (playlists (config (add_playlist_command u c ev b))) \<longrightarrow>
        playlists (config (add_playlist_command u c ev b)) = playlists (config b) @ [playlist_url] \<and>
        playlists (config (add_playlist_command u2 c ev2 (add_playlist_command u c ev b)))
          = playlists (config b) @ [playlist_url] \<and>
        count_list (playlists (config (add_playlist_command u2 c ev2
                                         (add_playlist_command u c ev b)))) playlist_url = 1) \<and>
     (distinct (playlists (config b)) \<longrightarrow>
        distinct (playlists (config (add_playlist_command u c ev b)))) \<and>
     (distinct (playlists (config b0)) \<longrightarrow> distinct (playlists (config (run events b0))))"
proof (intro conjI impI)
  assume a: "args c = playlist_url # rest"
  have present: "\<And>b' u' ev'. playlist_url \<in> set (playlists (config b')) \<Longrightarrow>
      config (add_playlist_command u' c ev' b') = config b'"
    using a by (simp add: add_playlist_command_def on_world_simps)
  { assume "playlist_url \<in> set (playlists (config b))"
    then show "config (add_playlist_command u c ev b) = config b" by (rule present)
  }
  { assume "playlist_url \<in> set (playlists (config b))"
    then show "disk (world (add_playlist_command u c ev b)) = disk (world b)"
      using a by (simp add: add_playlist_command_def on_world_simps reply_text_simps)
  }
  { assume h: "playlist_url \<notin> set (playlists (config b)) \<and>
               playlist_url \<in> set (playlists (config (add_playlist_command u c ev b)))"
    then show 1: "playlists (config (add_playlist_command u c ev b))
                    = playlists (config b) @ [playlist_url]"
      using a
      by (auto simp: add_playlist_command_def Let_def split_def on_world_simps save_self_simps
          split: if_splits)
    from h present [of "add_playlist_command u c ev b" u2 ev2] 1
    show 2: "playlists (config (add_playlist_command u2 c ev2 (add_playlist_command u c ev b)))
          = playlists (config b) @ [playlist_url]"
      by simp
    from h show "count_list (playlists (config (add_playlist_command u2 c ev2
                                         (add_playlist_command u c ev b)))) playlist_url = 1"
      by (simp add: 2 count_list_0_iff)
  }
  { assume "distinct (playlists (config b))"
    from handlers_distinct [OF this, of AddPlaylist u c ev]
    show "distinct (playlists (config (add_playlist_command u c ev b)))" by simp
  }
  { assume "distinct (playlists (config b0))"
    then show "distinct (playlists (config (run events b0)))"
      unfolding run_def by (intro steps_distinct) (simp add: setup_scheduler_frame)
  }
qed

text \<open>Adding the sample playlist twice to the default settings.\<close>

theorem add_playlist_idempotent_witness:
  "playlists (config (add_playlist_command owner \<lparr>args = [sample_playlist]\<rparr> (sample_env False [] False)
     (add_playlist_command owner \<lparr>args = [sample_playlist]\<rparr> (sample_env False [] False)
        (new_bot 7 default_settings empty_world)))) = [sample_playlist] \<and>
   distinct (playlists (config (run sample_events (new_bot 7 default_settings empty_world))))"
proof -
  let ?b = "new_bot 7 default_settings empty_world"
  let ?c = "\<lparr>args = [sample_playlist]\<rparr>"
  let ?ev = "sample_env False [] False"
  have a: "args ?c = sample_playlist # []" by simp
  have n: "sample_playlist \<notin> set (playlists (config ?b))"
    by (simp add: new_bot_def default_settings_def)
  have i: "sample_playlist \<in> set (playlists (config (add_playlist_command owner ?c ?ev ?b)))"
    by code_simp
  have d: "distinct (playlists (config ?b))"
    by (simp add: new_bot_def default_settings_def)
  from add_playlist_idempotent [OF a, of ?b owner ?ev owner ?ev ?b sample_events] n i d
  show ?thesis by (simp add: new_bot_def default_settings_def)
qed

lemma handlers_keep_enabled_nonempty:
  assumes "cmd \<noteq> RemovePlaylist"
      and "enabled (config b) \<longrightarrow> playlists (config b) \<noteq> []"
  shows "enabled (config (handlers cmd u c ev b)) \<longrightarrow>
           playlists (config (handlers cmd u c ev b)) \<noteq> []"
  using assms
  by (cases cmd)
     (auto simp: start_command_def help_command_def status_command_def
        list_playlists_command_def set_format_command_def enable_command_def
        disable_command_def set_interval_command_def send_now_command_def
        add_playlist_command_def
        Let_def split_def on_world_simps save_self_simps setup_scheduler_frame
        send_random_music_frame
        split: list.splits sum.splits if_splits)

text \<open>
  Claim C4, amended. With an empty playlist list, \<^verbatim>\<open>enable\<close> only replies that it cannot
  enable: settings, scheduler and config file are unchanged, so \<^verbatim>\<open>enabled\<close> stays false
  when it was false. Every command other than \<^verbatim>\<open>remove_playlist\<close>, and every firing of
  the scheduler, keeps "\<^verbatim>\<open>enabled\<close> only with a playlist" when it held before.
\<close>

theorem enable_rejected_on_empty_playlists:
  "(playlists (config b) = [] \<longrightarrow>
      enable_command u c ev b = on_world (reply_text CannotEnable) b \<and>
      config (enable_command u c ev b) = config b \<and>
      scheduler (enable_command u c ev b) = scheduler b \<and>
      disk (world (enable_command u c ev b)) = disk (world b) \<and>
      (\<not> enabled (config b) \<longrightarrow> \<not> enabled (config (enable_command u c ev b)))) \<and>
   (cmd \<noteq> RemovePlaylist \<and> (enabled (config b) \<longrightarrow> playlists (config b) \<noteq> []) \<longrightarrow>
      (enabled (config (step (Command cmd u c ev) b)) \<longrightarrow>
         playlists (config (step (Command cmd u c ev) b)) \<noteq> [])) \<and>
   ((enabled (config b) \<longrightarrow> playlists (config b) \<noteq> []) \<longrightarrow>
      (enabled (config (step (JobsFire ev) b)) \<longrightarrow>
         playlists (config (step (JobsFire ev) b)) \<noteq> []))"
proof (intro conjI)
  show "playlists (config b) = [] \<longrightarrow>
      enable_command u c ev b = on_world (reply_text CannotEnable) b \<and>
      config (enable_command u c ev b) = config b \<and>
      scheduler (enable_command u c ev b) = scheduler b \<and>
      disk (world (enable_command u c ev b)) = disk (world b) \<and>
      (\<not> enabled (config b) \<longrightarrow> \<not> enabled (config (enable_command u c ev b)))"
    by (simp add: enable_command_def on_world_simps reply_text_simps)
  show "cmd \<noteq> RemovePlaylist \<and> (enabled (config b) \<longrightarrow> playlists (config b) \<noteq> []) \<longrightarrow>
      (enabled (config (step (Command cmd u c ev) b)) \<longrightarrow>
         playlists (config (step (Command cmd u c ev) b)) \<noteq> [])"
    using handlers_keep_enabled_nonempty [of cmd b u c ev]
    by (auto simp: authorized_command_def check_user_permission_def on_world_simps)
  show "(enabled (config b) \<longrightarrow> playlists (config b) \<noteq> []) \<longrightarrow>
      (enabled (config (step (JobsFire ev) b)) \<longrightarrow>
         playlists (config (step (JobsFire ev) b)) \<noteq> [])"
    by (simp add: jobs_fire_frame)
qed

text \<open>
  \<^verbatim>\<open>enable\<close> on the default settings (no playlist) is rejected; on a bot with a playlist
  it enables.
\<close>

theorem enable_rejected_on_empty_playlists_witness:
  "enable_command owner \<lparr>args = []\<rparr> (sample_env False [] False)
     (new_bot 7 default_settings empty_world)
     = on_world (reply_text CannotEnable) (new_bot 7 default_settings empty_world) \<and>
   \<not> enabled (config (enable_command owner \<lparr>args = []\<rparr> (sample_env False [] False)
        (new_bot 7 default_settings empty_world))) \<and>
   playlists (config (step (Command Enable owner \<lparr>args = []\<rparr> (sample_env False [] False))
        (sample_bot 10))) \<noteq> [] \<and>
   enabled (config (step (Command Enable owner \<lparr>args = []\<rparr> (sample_env False [] False))
        (sample_bot 10)))"
proof -
  have 1: "playlists (config (new_bot 7 default_settings empty_world)) = []"
    by (simp add: new_bot_def default_settings_def)
  have 2: "\<not> enabled (config (new_bot 7 default_settings empty_world))"
    by (simp add: new_bot_def default_settings_def)
  have 3: "Enable \<noteq> RemovePlaylist \<and>
           (enabled (config (sample_bot 10)) \<longrightarrow> playlists (config (sample_bot 10)) \<noteq> [])"
    by (simp add: sample_bot_def)
  have 4: "enabled (config (step (Command Enable owner \<lparr>args = []\<rparr> (sample_env False [] False))
        (sample_bot 10)))"
    by code_simp
  from enable_rejected_on_empty_playlists
         [of "new_bot 7 default_settings empty_world" owner "\<lparr>args = []\<rparr>"
             "sample_env False [] False" Enable] 1 2
  have a: "enable_command owner \<lparr>args = []\<rparr> (sample_env False [] False)
     (new_bot 7 default_settings empty_world)
     = on_world (reply_text CannotEnable) (new_bot 7 default_settings empty_world) \<and>
   \<not> enabled (config (enable_command owner \<lparr>args = []\<rparr> (sample_env False [] False)
        (new_bot 7 default_settings empty_world)))"
    by blast
  from enable_rejected_on_empty_playlists
         [of "sample_bot 10" owner "\<lparr>args = []\<rparr>" "sample_env False [] False" Enable] 3 4
  have b: "playlists (config (step (Command Enable owner \<lparr>args = []\<rparr> (sample_env False [] False))
        (sample_bot 10))) \<noteq> []"
    by blast
  from a b 4 show ?thesis by blast
qed

text \<open>
  Claim C4 as stated fails: after the session \<open>remove_last_events\<close> (add a playlist,
  enable, remove the playlist) the list is empty and \<^verbatim>\<open>enabled\<close> is true, and \<^verbatim>\<open>enable\<close>
  in that state leaves \<^verbatim>\<open>enabled\<close> true.
\<close>

theorem enable_on_empty_playlists_counterexample:
  "playlists (config (run remove_last_events (new_bot 7 default_settings empty_world))) = [] \<and>
   enabled (config (run remove_last_events (new_bot 7 default_settings empty_world))) \<and>
   enabled (config (enable_command owner \<lparr>args = []\<rparr> (sample_env False [] False)
              (run remove_last_events (new_bot 7 default_settings empty_world))))"
  by code_simp

end
